theory Spec2Isabelle
  imports Main
begin

section \<open>The software image storage of the deployments service\<close>

text \<open>
  A shallow embedding of \<^verbatim>\<open>images/storage_images.go\<close>: the data layer for software
  image records on top of a MongoDB collection, reached through the mgo driver.
  Every method of \<^verbatim>\<open>SoftwareImagesStorage\<close> becomes a function from the world before
  the call to the values returned and the world after it.
\<close>

subsection \<open>Constants\<close>

definition StorageKeySoftwareImageModel :: string where
  "StorageKeySoftwareImageModel = ''softwareimageconstructor.model''"

definition StorageKeySoftwareImageName :: string where
  "StorageKeySoftwareImageName = ''softwareimageconstructor.name''"

definition StorageKeySoftwareImageId :: string where
  "StorageKeySoftwareImageId = ''_id''"

definition IndexUniqeNameVersionStr :: string where
  "IndexUniqeNameVersionStr = ''uniqueNameVersionIndex''"

subsection \<open>Errors\<close>

text \<open>
  A Go \<^verbatim>\<open>error\<close> is a value with a message. The four sentinel errors of the package and
  the driver's \<^verbatim>\<open>mgo.ErrNotFound\<close> are values of their own; the errors made by the
  entity's validation and every other error of the driver carry their message.
  \<open>ErrDatabase ''not found''\<close> is an error that is not \<^verbatim>\<open>mgo.ErrNotFound\<close> and has the
  same message.
\<close>

datatype error =
    ErrStorageInvalidID
  | ErrStorageInvalidVersion
  | ErrStorageInvalidModel
  | ErrStorageInvalidImage
  | ErrNotFound
  | ErrValidation string
  | ErrDatabase string

fun Error :: "error \<Rightarrow> string" where
  "Error ErrStorageInvalidID = ''Invalid id''"
| "Error ErrStorageInvalidVersion = ''Invalid version''"
| "Error ErrStorageInvalidModel = ''Invalid model''"
| "Error ErrStorageInvalidImage = ''Invalid image''"
| "Error ErrNotFound = ''not found''"
| "Error (ErrValidation m) = m"
| "Error (ErrDatabase m) = m"

text \<open>A call either returns or panics (a nil pointer is dereferenced).\<close>

datatype 'a outcome = Panic | Return 'a

subsection \<open>The entity\<close>

text \<open>
  Modelled from the spec: the struct \<^verbatim>\<open>SoftwareImage\<close> is declared outside the files at
  hand. The record has the fields the storage code names: the identifier behind the
  pointer \<^verbatim>\<open>image.Id\<close> (stored under \<^verbatim>\<open>_id\<close>), the two parts of the natural key
  (stored under \<^verbatim>\<open>softwareimageconstructor.name\<close> and
  \<^verbatim>\<open>softwareimageconstructor.model\<close>) and the modification timestamp.
  A pointer is an option: \<open>None\<close> is nil.
\<close>

text \<open>A \<^verbatim>\<open>time.Time\<close> is a number of nanoseconds.\<close>

type_synonym time = nat

record software_image =
  Id' :: "string option"
  name :: string
  model :: string
  Modified :: "time option"

text \<open>
  Modelled from the spec: the mutator \<^verbatim>\<open>SetModified\<close> of the entity, which is declared
  outside the files at hand, sets the modification timestamp. It writes a field of its
  receiver, so a nil receiver panics.
\<close>

definition SetModified :: "time \<Rightarrow> software_image option \<Rightarrow> software_image option outcome" where
  "SetModified t image_ptr =
     (case image_ptr of
        None \<Rightarrow> Panic
      | Some img \<Rightarrow> Return (Some (img\<lparr>Modified := Some t\<rparr>)))"

text \<open>
  The entity's \<^verbatim>\<open>Validate\<close> is a parameter of the functions that call it: it gets the
  receiver (nil included) and it panics, returns the message of a validation error, or
  returns nil.
\<close>

type_synonym validator = "software_image option \<Rightarrow> string option outcome"

text \<open>\<^verbatim>\<open>govalidator.IsNull\<close>: the string has length zero.\<close>

definition IsNull :: "string \<Rightarrow> bool" where
  "IsNull str = (length str = 0)"

subsection \<open>The database behind the driver\<close>

text \<open>
  \<^verbatim>\<open>mgo.Index\<close>, with the fields the code sets (the others keep their zero value).
\<close>

record index =
  Key :: "string list"
  Unique :: bool
  Name :: string
  Background :: bool

type_synonym query = "(string \<times> string) list"

datatype db_request =
    ReqEnsureIndex index
  | ReqFindOne query
  | ReqFindAll query
  | ReqUpdateId string software_image
  | ReqInsert software_image
  | ReqRemoveId string

text \<open>
  The world of the storage: the documents of the collection \<^verbatim>\<open>images\<close> of the
  database \<^verbatim>\<open>deployment_service\<close> in insertion order, its indexes, the keys of the
  indexes that the driver remembers to be there (the index cache of the cluster, which
  the copies of a session share), a failure of the infrastructure (while it is set,
  every request fails with an error of that message), the clock at the moment a method
  is called and the time that passes from there until the method reads \<^verbatim>\<open>time.Now\<close>,
  the number of session copies that are open, and the requests sent to the database so
  far.
\<close>

record world =
  docs :: "software_image list"
  indexes :: "index list"
  index_cache :: "string list list"
  fault :: "string option"
  clock :: time
  elapsed :: time
  sessions :: nat
  requests :: "db_request list"

definition session_Copy :: "world \<Rightarrow> world" where
  "session_Copy w = w\<lparr>sessions := Suc (sessions w)\<rparr>"

definition session_Close :: "world \<Rightarrow> world" where
  "session_Close w = w\<lparr>sessions := sessions w - 1\<rparr>"

definition time_Now :: "world \<Rightarrow> time" where
  "time_Now w = clock w + elapsed w"

text \<open>
  The driver writes a \<^verbatim>\<open>time.Time\<close> as a BSON datetime, which holds whole milliseconds:
  what is below the millisecond is not stored.
\<close>

definition bson_datetime :: "time \<Rightarrow> time" where
  "bson_datetime t = (t div 1000000) * 1000000"

definition bson_document :: "software_image \<Rightarrow> software_image" where
  "bson_document d = d\<lparr>Modified := map_option bson_datetime (Modified d)\<rparr>"

definition send :: "db_request \<Rightarrow> world \<Rightarrow> world" where
  "send r w = w\<lparr>requests := requests w @ [r]\<rparr>"

text \<open>The value a document has under a key of the storage.\<close>

definition document_field :: "string \<Rightarrow> software_image \<Rightarrow> string option" where
  "document_field k d =
     (if k = StorageKeySoftwareImageId then Id' d
      else if k = StorageKeySoftwareImageName then Some (name d)
      else if k = StorageKeySoftwareImageModel then Some (model d)
      else None)"

definition matches :: "query \<Rightarrow> software_image \<Rightarrow> bool" where
  "matches q d = list_all (\<lambda>(k, v). document_field k d = Some v) q"

definition index_key :: "index \<Rightarrow> software_image \<Rightarrow> string option list" where
  "index_key ix d = map (\<lambda>k. document_field k d) (Key ix)"

text \<open>
  A unique index refuses a document when one of the documents \<open>ds\<close> has the same
  values under the keys of the index.
\<close>

definition index_conflict :: "index list \<Rightarrow> software_image list \<Rightarrow> software_image \<Rightarrow> bool" where
  "index_conflict ixs ds d =
     list_ex (\<lambda>ix. Unique ix \<and> list_ex (\<lambda>d'. index_key ix d' = index_key ix d) ds) ixs"

definition E11000 :: error where
  "E11000 = ErrDatabase ''E11000 duplicate key error''"

fun has_duplicates :: "index \<Rightarrow> software_image list \<Rightarrow> bool" where
  "has_duplicates ix [] = False"
| "has_duplicates ix (d # ds) =
     (list_ex (\<lambda>d'. index_key ix d' = index_key ix d) ds \<or> has_duplicates ix ds)"

fun replace_first :: "('a \<Rightarrow> bool) \<Rightarrow> 'a \<Rightarrow> 'a list \<Rightarrow> 'a list" where
  "replace_first P y [] = []"
| "replace_first P y (x # xs) = (if P x then y # xs else x # replace_first P y xs)"

fun remove_first :: "('a \<Rightarrow> bool) \<Rightarrow> 'a list \<Rightarrow> 'a list" where
  "remove_first P [] = []"
| "remove_first P (x # xs) = (if P x then xs else x # remove_first P xs)"

definition IndexOptionsConflict :: error where
  "IndexOptionsConflict = ErrDatabase ''index already exists with different options''"

text \<open>
  \<^verbatim>\<open>Collection.EnsureIndex\<close>: when the key of the index is in the index cache, the driver
  returns nil and sends nothing. Otherwise it asks the database to create the index:
  nothing is created when the same index is there; an index of the same name or over the
  same key that differs is refused; a unique index is not built over documents that
  share a key. After a success the driver puts the key into the cache.
\<close>

definition EnsureIndex :: "index \<Rightarrow> world \<Rightarrow> error option \<times> world" where
  "EnsureIndex ix w =
     (if Key ix \<in> set (index_cache w) then (None, w)
      else
        let w' = send (ReqEnsureIndex ix) w in
        case fault w of
          Some m \<Rightarrow> (Some (ErrDatabase m), w')
        | None \<Rightarrow>
            if ix \<in> set (indexes w)
              then (None, w'\<lparr>index_cache := index_cache w @ [Key ix]\<rparr>)
            else if list_ex (\<lambda>ix'. Name ix' = Name ix \<or> Key ix' = Key ix) (indexes w)
              then (Some IndexOptionsConflict, w')
            else if Unique ix \<and> has_duplicates ix (docs w) then (Some E11000, w')
            else (None, w'\<lparr>indexes := indexes w @ [ix],
                            index_cache := index_cache w @ [Key ix]\<rparr>))"

text \<open>\<^verbatim>\<open>Collection.Find(query).One\<close>: the first match, or \<^verbatim>\<open>mgo.ErrNotFound\<close>.\<close>

definition Find_One :: "query \<Rightarrow> world \<Rightarrow> (error + software_image) \<times> world" where
  "Find_One q w =
     (let w' = send (ReqFindOne q) w in
      case fault w of
        Some m \<Rightarrow> (Inl (ErrDatabase m), w')
      | None \<Rightarrow>
          (case find (matches q) (docs w) of
             None \<Rightarrow> (Inl ErrNotFound, w')
           | Some d \<Rightarrow> (Inr d, w')))"

text \<open>\<^verbatim>\<open>Collection.FindId(id)\<close> is \<^verbatim>\<open>Find(bson.D{{"_id", id}})\<close>.\<close>

definition FindId_One :: "string \<Rightarrow> world \<Rightarrow> (error + software_image) \<times> world" where
  "FindId_One id' w = Find_One [(StorageKeySoftwareImageId, id')] w"

text \<open>\<^verbatim>\<open>Collection.Find(query).All\<close>: every match; no match is no error.\<close>

definition Find_All :: "query \<Rightarrow> world \<Rightarrow> (error + software_image list) \<times> world" where
  "Find_All q w =
     (let w' = send (ReqFindAll q) w in
      case fault w of
        Some m \<Rightarrow> (Inl (ErrDatabase m), w')
      | None \<Rightarrow> (Inr (filter (matches q) (docs w)), w'))"

text \<open>
  \<^verbatim>\<open>Collection.UpdateId(id, update)\<close>: the first document with the id is replaced by
  the update as the driver writes it, unless a unique index refuses it beside the other
  documents;
  \<^verbatim>\<open>mgo.ErrNotFound\<close> when there is none.
\<close>

definition UpdateId :: "string \<Rightarrow> software_image \<Rightarrow> world \<Rightarrow> error option \<times> world" where
  "UpdateId id' d w =
     (let w' = send (ReqUpdateId id' d) w in
      case fault w of
        Some m \<Rightarrow> (Some (ErrDatabase m), w')
      | None \<Rightarrow>
          if \<not> list_ex (\<lambda>d'. Id' d' = Some id') (docs w) then (Some ErrNotFound, w')
          else if index_conflict (indexes w) (remove_first (\<lambda>d'. Id' d' = Some id') (docs w)) d
            then (Some E11000, w')
          else (None,
                w'\<lparr>docs := replace_first (\<lambda>d'. Id' d' = Some id') (bson_document d) (docs w)\<rparr>))"

text \<open>
  \<^verbatim>\<open>Collection.Insert(doc)\<close>: the document is added as the driver writes it, unless its \<^verbatim>\<open>_id\<close> is taken or a
  unique index refuses it.
\<close>

definition Insert_doc :: "software_image \<Rightarrow> world \<Rightarrow> error option \<times> world" where
  "Insert_doc d w =
     (let w' = send (ReqInsert d) w in
      case fault w of
        Some m \<Rightarrow> (Some (ErrDatabase m), w')
      | None \<Rightarrow>
          if list_ex (\<lambda>d'. Id' d' = Id' d) (docs w) \<or> index_conflict (indexes w) (docs w) d
            then (Some E11000, w')
          else (None, w'\<lparr>docs := docs w @ [bson_document d]\<rparr>))"

text \<open>
  \<^verbatim>\<open>Collection.RemoveId(id)\<close>: the first document with the id is removed;
  \<^verbatim>\<open>mgo.ErrNotFound\<close> when there is none.
\<close>

definition RemoveId :: "string \<Rightarrow> world \<Rightarrow> error option \<times> world" where
  "RemoveId id' w =
     (let w' = send (ReqRemoveId id') w in
      case fault w of
        Some m \<Rightarrow> (Some (ErrDatabase m), w')
      | None \<Rightarrow>
          if \<not> list_ex (\<lambda>d'. Id' d' = Some id') (docs w) then (Some ErrNotFound, w')
          else (None, w'\<lparr>docs := remove_first (\<lambda>d'. Id' d' = Some id') (docs w)\<rparr>))"

subsection \<open>The methods of the storage\<close>

text \<open>The index that \<^verbatim>\<open>IndexStorage\<close> asks for.\<close>

definition uniqueNameVersionIndex :: index where
  "uniqueNameVersionIndex =
     \<lparr>Key = [StorageKeySoftwareImageName, StorageKeySoftwareImageModel],
      Unique = True,
      Name = IndexUniqeNameVersionStr,
      Background = False\<rparr>"

definition IndexStorage :: "world \<Rightarrow> error option \<times> world" where
  "IndexStorage w =
     (let session = session_Copy w;
          (err, session) = EnsureIndex uniqueNameVersionIndex session
      in case err of
           Some e \<Rightarrow> (Some e, session_Close session)
         | None \<Rightarrow> (None, session_Close session))"

definition Exists :: "string \<Rightarrow> world \<Rightarrow> (bool \<times> error option) \<times> world" where
  "Exists id' w =
     (if \<not> IsNull id' then ((False, Some ErrStorageInvalidID), w)
      else
        let session = session_Copy w;
            (r, session) = FindId_One id' session
        in case r of
             Inl err \<Rightarrow>
               if Error err = Error ErrNotFound then ((False, None), session_Close session)
               else ((False, Some err), session_Close session)
           | Inr found \<Rightarrow> ((True, None), session_Close session))"

text \<open>
  \<^verbatim>\<open>Update\<close> returns the boolean and the error, the caller's image as the call leaves
  it, and the world.
\<close>

definition Update ::
  "validator \<Rightarrow> software_image option \<Rightarrow> world \<Rightarrow>
     ((bool \<times> error option) \<times> software_image option \<times> world) outcome" where
  "Update Validate image_ptr w =
     (case Validate image_ptr of
        Panic \<Rightarrow> Panic
      | Return (Some m) \<Rightarrow> Return ((False, Some (ErrValidation m)), image_ptr, w)
      | Return None \<Rightarrow>
          let session = session_Copy w in
          (case SetModified (time_Now session) image_ptr of
             Panic \<Rightarrow> Panic
           | Return None \<Rightarrow> Panic
           | Return (Some img) \<Rightarrow>
               (case Id' img of
                  None \<Rightarrow> Panic
                | Some id' \<Rightarrow>
                    let (err, session) = UpdateId id' img session in
                    (case err of
                       Some e \<Rightarrow>
                         if Error e = Error ErrNotFound
                         then Return ((False, None), Some img, session_Close session)
                         else Return ((False, Some e), Some img, session_Close session)
                     | None \<Rightarrow> Return ((True, None), Some img, session_Close session)))))"

definition FindImageByApplicationAndModel ::
  "string \<Rightarrow> string \<Rightarrow> world \<Rightarrow> (software_image option \<times> error option) \<times> world" where
  "FindImageByApplicationAndModel version mdl w =
     (if \<not> IsNull version then ((None, Some ErrStorageInvalidVersion), w)
      else if \<not> IsNull mdl then ((None, Some ErrStorageInvalidModel), w)
      else
        let query = [(StorageKeySoftwareImageModel, mdl), (StorageKeySoftwareImageName, version)];
            session = session_Copy w;
            (r, session) = Find_One query session
        in case r of
             Inl err \<Rightarrow>
               if Error err = Error ErrNotFound then ((None, None), session_Close session)
               else ((None, Some err), session_Close session)
           | Inr found \<Rightarrow> ((Some found, None), session_Close session))"

definition Insert :: "validator \<Rightarrow> software_image option \<Rightarrow> world \<Rightarrow> (error option \<times> world) outcome" where
  "Insert Validate image_ptr w =
     (case image_ptr of
        None \<Rightarrow> Return (Some ErrStorageInvalidImage, w)
      | Some img \<Rightarrow>
          (case Validate image_ptr of
             Panic \<Rightarrow> Panic
           | Return (Some m) \<Rightarrow> Return (Some (ErrValidation m), w)
           | Return None \<Rightarrow>
               let session = session_Copy w;
                   (err, session) = Insert_doc img session
               in (case err of
                     Some e \<Rightarrow> Return (Some e, session_Close session)
                   | None \<Rightarrow> Return (None, session_Close session))))"

definition FindByID :: "string \<Rightarrow> world \<Rightarrow> (software_image option \<times> error option) \<times> world" where
  "FindByID id' w =
     (if \<not> IsNull id' then ((None, Some ErrStorageInvalidID), w)
      else
        let session = session_Copy w;
            (r, session) = FindId_One id' session
        in case r of
             Inl err \<Rightarrow>
               if Error err = Error ErrNotFound then ((None, None), session_Close session)
               else ((None, Some err), session_Close session)
           | Inr found \<Rightarrow> ((Some found, None), session_Close session))"

definition Delete :: "string \<Rightarrow> world \<Rightarrow> error option \<times> world" where
  "Delete id' w =
     (if \<not> IsNull id' then (Some ErrStorageInvalidID, w)
      else
        let session = session_Copy w;
            (err, session) = RemoveId id' session
        in case err of
             Some e \<Rightarrow>
               if Error e = Error ErrNotFound then (None, session_Close session)
               else (Some e, session_Close session)
           | None \<Rightarrow> (None, session_Close session))"

text \<open>
  \<^verbatim>\<open>FindAll\<close>: when the request fails nothing was decoded, and the slice \<^verbatim>\<open>images\<close>
  that the not-found branch returns is still nil, the empty list.
\<close>

definition FindAll :: "world \<Rightarrow> (software_image list \<times> error option) \<times> world" where
  "FindAll w =
     (let session = session_Copy w;
          (r, session) = Find_All [] session
      in case r of
           Inl err \<Rightarrow>
             if Error err = Error ErrNotFound then (([], None), session_Close session)
             else (([], Some err), session_Close session)
         | Inr images \<Rightarrow> ((images, None), session_Close session))"

subsection \<open>Example values\<close>

text \<open>
  An empty, healthy database; a call is made 100 nanoseconds after a full millisecond
  and reads the clock 7 nanoseconds later.
\<close>

definition world0 :: world where
  "world0 =
     \<lparr>docs = [], indexes = [], index_cache = [], fault = None, clock = 1000100, elapsed = 7,
      sessions = 0, requests = []\<rparr>"

definition image1 :: software_image where
  "image1 = \<lparr>Id' = Some ''a1'', name = ''app-1.0'', model = ''bbb'', Modified = None\<rparr>"

text \<open>The database that holds \<open>image1\<close> under the unique index.\<close>

definition world1 :: world where
  "world1 = world0\<lparr>docs := [image1], indexes := [uniqueNameVersionIndex]\<rparr>"

text \<open>
  Modelled from the spec: a \<^verbatim>\<open>Validate\<close> of the entity (declared outside the files at
  hand) that fails when a part of the natural key is empty. It reads its receiver, so a
  nil receiver panics.
\<close>

definition Validate_natural_key :: validator where
  "Validate_natural_key image_ptr =
     (case image_ptr of
        None \<Rightarrow> Panic
      | Some img \<Rightarrow>
          if IsNull (name img) \<or> IsNull (model img) then Return (Some ''natural key is empty'')
          else Return None)"

text \<open>An image whose natural key has an empty part, and an image whose id is nil.\<close>

definition image_bad :: software_image where
  "image_bad = \<lparr>Id' = Some ''b2'', name = [], model = ''bbb'', Modified = None\<rparr>"

definition image_no_id :: software_image where
  "image_no_id = \<lparr>Id' = None, name = ''app-1.0'', model = ''bbb'', Modified = None\<rparr>"

text \<open>
  The database of \<open>world1\<close> when it cannot be reached, and when its failure has the
  message of \<^verbatim>\<open>mgo.ErrNotFound\<close>.
\<close>

definition world_down :: world where
  "world_down = world1\<lparr>fault := Some ''no reachable servers''\<rparr>"

definition world_odd :: world where
  "world_odd = world1\<lparr>fault := Some ''not found''\<rparr>"

text \<open>
  A second image, the database that holds both images under the unique index, and the
  second image with the natural key of the first.
\<close>

definition image2 :: software_image where
  "image2 = \<lparr>Id' = Some ''a2'', name = ''app-2.0'', model = ''bbb'', Modified = None\<rparr>"

definition world2 :: world where
  "world2 = world1\<lparr>docs := [image1, image2]\<rparr>"

definition image_clash :: software_image where
  "image_clash = image2\<lparr>name := ''app-1.0''\<rparr>"


section \<open>Properties\<close>

lemmas key_defs =
  StorageKeySoftwareImageModel_def StorageKeySoftwareImageName_def
  StorageKeySoftwareImageId_def IndexUniqeNameVersionStr_def

lemmas db_defs =
  session_Copy_def session_Close_def time_Now_def send_def EnsureIndex_def Find_One_def
  FindId_One_def Find_All_def UpdateId_def Insert_doc_def RemoveId_def

lemmas doc_defs =
  document_field_def matches_def index_key_def index_conflict_def

lemmas example_defs =
  world0_def world1_def image1_def uniqueNameVersionIndex_def Validate_natural_key_def

subsection \<open>The guards on identifiers, versions and models\<close>

text \<open>
  Each guard is \<^verbatim>\<open>!govalidator.IsNull(x)\<close>: it is the non-empty argument that is refused,
  without a request to the database, and the empty one that goes on to the database.
\<close>

lemma FindByID_guard:
  "id' \<noteq> [] \<Longrightarrow> FindByID id' w = ((None, Some ErrStorageInvalidID), w)"
  by (simp add: FindByID_def IsNull_def)

lemma Delete_guard:
  "id' \<noteq> [] \<Longrightarrow> Delete id' w = (Some ErrStorageInvalidID, w)"
  by (simp add: Delete_def IsNull_def)

lemma Exists_guard:
  "id' \<noteq> [] \<Longrightarrow> Exists id' w = ((False, Some ErrStorageInvalidID), w)"
  by (simp add: Exists_def IsNull_def)

lemma FindImageByApplicationAndModel_guard_version:
  "version \<noteq> [] \<Longrightarrow>
     FindImageByApplicationAndModel version mdl w = ((None, Some ErrStorageInvalidVersion), w)"
  by (simp add: FindImageByApplicationAndModel_def IsNull_def)

lemma FindImageByApplicationAndModel_guard_model:
  "mdl \<noteq> [] \<Longrightarrow>
     FindImageByApplicationAndModel [] mdl w = ((None, Some ErrStorageInvalidModel), w)"
  by (simp add: FindImageByApplicationAndModel_def IsNull_def)

text \<open>
  C1. The claim: \<^verbatim>\<open>FindByID\<close> of an id that is not stored returns (nil, nil), and of the
  empty id returns (nil, InvalidID) before any request to the database. The code at
  hand: on the empty database the id \<^verbatim>\<open>nonexistent\<close> gets (nil, InvalidID) and no
  request is sent; the empty id sends the lookup to the database and gets (nil, nil).
\<close>

theorem FindByID_inverted_guard:
  "FindByID ''nonexistent'' world0 = ((None, Some ErrStorageInvalidID), world0) \<and>
   FindByID [] world0 =
     ((None, None), world0\<lparr>requests := [ReqFindOne [(StorageKeySoftwareImageId, [])]]\<rparr>)"
  by (simp add: FindByID_def IsNull_def db_defs world0_def doc_defs key_defs)

text \<open>
  C2. The claim: \<^verbatim>\<open>FindImageByApplicationAndModel\<close> returns InvalidVersion for an empty
  version and InvalidModel for an empty model before any request to the database, and
  the matching record when both are non-empty. The code at hand: with both non-empty
  and the record stored it returns (nil, InvalidVersion) and sends no request; with an
  empty version and a model it returns (nil, InvalidModel); with both empty it sends
  the query to the database.
\<close>

theorem FindImageByApplicationAndModel_inverted_guard:
  "FindImageByApplicationAndModel ''app-1.0'' ''bbb'' world1 =
     ((None, Some ErrStorageInvalidVersion), world1) \<and>
   FindImageByApplicationAndModel [] ''bbb'' world1 =
     ((None, Some ErrStorageInvalidModel), world1) \<and>
   FindImageByApplicationAndModel [] [] world1 =
     ((None, None),
      world1\<lparr>requests :=
        [ReqFindOne [(StorageKeySoftwareImageModel, []), (StorageKeySoftwareImageName, [])]]\<rparr>)"
  by (simp add: FindImageByApplicationAndModel_def IsNull_def db_defs example_defs doc_defs
      key_defs)

text \<open>
  C3. The claim: \<^verbatim>\<open>Delete\<close> of an id that is not stored returns no error, on every
  call, and InvalidID only for the empty id. The code at hand: on the empty database
  the id \<^verbatim>\<open>nonexistent\<close> gets InvalidID, on the first call and on the next; the stored
  id \<^verbatim>\<open>a1\<close> gets InvalidID too and its record stays; the empty id sends the removal to
  the database and gets no error.
\<close>

theorem Delete_inverted_guard:
  "Delete ''nonexistent'' world0 = (Some ErrStorageInvalidID, world0) \<and>
   Delete ''nonexistent'' (snd (Delete ''nonexistent'' world0)) =
     (Some ErrStorageInvalidID, world0) \<and>
   Delete ''a1'' world1 = (Some ErrStorageInvalidID, world1) \<and>
   Delete [] world0 = (None, world0\<lparr>requests := [ReqRemoveId []]\<rparr>)"
  by (simp add: Delete_def IsNull_def db_defs world0_def)

subsection \<open>Facts about the database\<close>

lemma document_field_Modified [simp]:
  "document_field k (d\<lparr>Modified := t\<rparr>) = document_field k d"
  by (simp add: document_field_def)

lemma index_conflict_Modified [simp]:
  "index_conflict ixs ds (d\<lparr>Modified := t\<rparr>) = index_conflict ixs ds d"
  by (simp add: index_conflict_def index_key_def)

lemma find_replace_first:
  "P y \<Longrightarrow> list_ex P xs \<Longrightarrow> find P (replace_first P y xs) = Some y"
  by (induction xs) auto

lemma matches_Nil [simp]: "matches [] d"
  by (simp add: matches_def)

lemma FindAll_healthy:
  "fault w = None \<Longrightarrow> FindAll w = ((docs w, None), w\<lparr>requests := requests w @ [ReqFindAll []]\<rparr>)"
  by (simp add: FindAll_def db_defs)

lemma FindAll_subset: "set (fst (fst (FindAll w))) \<subseteq> set (docs w)"
  by (cases "fault w") (simp_all add: FindAll_def db_defs Let_def)

lemma UpdateId_requests:
  "requests (snd (UpdateId id' d w)) = requests w @ [ReqUpdateId id' d]"
  by (simp add: UpdateId_def send_def Let_def split: option.splits)

lemma EnsureIndex_requests:
  "Key ix \<notin> set (index_cache w) \<Longrightarrow>
     requests (snd (EnsureIndex ix w)) = requests w @ [ReqEnsureIndex ix]"
  by (simp add: EnsureIndex_def send_def Let_def split: option.splits)

lemma EnsureIndex_cached:
  "Key ix \<in> set (index_cache w) \<Longrightarrow> EnsureIndex ix w = (None, w)"
  by (simp add: EnsureIndex_def)

lemma EnsureIndex_caches:
  "EnsureIndex ix w = (None, w') \<Longrightarrow> Key ix \<in> set (index_cache w')"
  by (auto simp: EnsureIndex_def send_def Let_def split: option.splits if_splits)

lemma EnsureIndex_creates:
  "Key ix \<notin> set (index_cache w) \<Longrightarrow> EnsureIndex ix w = (None, w') \<Longrightarrow>
     ix \<in> set (indexes w')"
  by (auto simp: EnsureIndex_def send_def Let_def split: option.splits if_splits)

lemma bson_datetime_le: "bson_datetime t \<le> t"
  by (simp add: bson_datetime_def)

lemma bson_datetime_less: "t < bson_datetime t + 1000000"
proof -
  have "t = (t div 1000000) * 1000000 + t mod 1000000"
    by simp
  moreover have "t mod 1000000 < 1000000"
    by simp
  ultimately show ?thesis
    unfolding bson_datetime_def by linarith
qed

lemma fault_EnsureIndex:
  "fault w = Some m \<Longrightarrow> Key ix \<notin> set (index_cache w) \<Longrightarrow>
     EnsureIndex ix (session_Copy w) = (Some (ErrDatabase m), send (ReqEnsureIndex ix) (session_Copy w))"
  by (simp add: EnsureIndex_def session_Copy_def Let_def)

lemma fault_Find_One:
  "fault w = Some m \<Longrightarrow>
     Find_One q (session_Copy w) = (Inl (ErrDatabase m), send (ReqFindOne q) (session_Copy w))"
  by (simp add: Find_One_def session_Copy_def Let_def)

lemma fault_Find_All:
  "fault w = Some m \<Longrightarrow>
     Find_All q (session_Copy w) = (Inl (ErrDatabase m), send (ReqFindAll q) (session_Copy w))"
  by (simp add: Find_All_def session_Copy_def Let_def)

lemma fault_UpdateId:
  "fault w = Some m \<Longrightarrow>
     UpdateId i d (session_Copy w) = (Some (ErrDatabase m), send (ReqUpdateId i d) (session_Copy w))"
  by (simp add: UpdateId_def session_Copy_def Let_def)

lemma fault_Insert_doc:
  "fault w = Some m \<Longrightarrow>
     Insert_doc d (session_Copy w) = (Some (ErrDatabase m), send (ReqInsert d) (session_Copy w))"
  by (simp add: Insert_doc_def session_Copy_def Let_def)

lemma fault_RemoveId:
  "fault w = Some m \<Longrightarrow>
     RemoveId i (session_Copy w) = (Some (ErrDatabase m), send (ReqRemoveId i) (session_Copy w))"
  by (simp add: RemoveId_def session_Copy_def Let_def)

lemmas fault_db = fault_Find_One fault_Find_All fault_UpdateId fault_Insert_doc
  fault_RemoveId

subsection \<open>Update\<close>

text \<open>
  C4. The claim: \<^verbatim>\<open>Update\<close> of valid data on a stored id returns (true, nil) and the
  record's modification timestamp is then not before the time of the call. The code at
  hand: \<open>image_clash\<close> passes validation and its id is stored in \<open>world2\<close>, and the
  unique index refuses its natural key, so (false, duplicate key error) comes back;
  and the update of \<open>image1\<close> in \<open>world1\<close>, called at 1000100 and stamped 1000107, is
  stored with the timestamp 1000000, which is before the call.
\<close>

theorem Update_claim_counterexample:
  "Update Validate_natural_key (Some image_clash) world2 =
     Return ((False, Some E11000), Some (image_clash\<lparr>Modified := Some 1000107\<rparr>),
       world2\<lparr>requests := [ReqUpdateId ''a2'' (image_clash\<lparr>Modified := Some 1000107\<rparr>)]\<rparr>) \<and>
   Update Validate_natural_key (Some image1) world1 =
     Return ((True, None), Some (image1\<lparr>Modified := Some 1000107\<rparr>),
       world1\<lparr>docs := [image1\<lparr>Modified := Some 1000000\<rparr>],
              requests := [ReqUpdateId ''a1'' (image1\<lparr>Modified := Some 1000107\<rparr>)]\<rparr>) \<and>
   clock world1 = 1000100 \<and> (1000000 :: time) < 1000100"
  by (simp add: Update_def SetModified_def db_defs doc_defs key_defs example_defs IsNull_def
      image2_def world2_def image_clash_def bson_document_def bson_datetime_def E11000_def)

text \<open>
  C4, amended. With an image that passes validation and has an id, on a database
  without a failure: when a record with the id is stored and no unique index refuses
  the natural key of the image beside the other records, \<^verbatim>\<open>Update\<close> returns (true, nil),
  the caller's image carries the time read in the call, which is not before the time of
  the call, and the stored record carries that time cut to whole milliseconds, which is
  at most the time read and less than a millisecond below it; when a unique index
  refuses the key, \<^verbatim>\<open>Update\<close> returns false with the duplicate key error and the
  documents are as before; when no record with the id is stored, \<^verbatim>\<open>Update\<close> returns
  (false, nil) and the documents are as before.
\<close>

theorem Update_semantics:
  assumes "Validate (Some img) = Return None" and "Id' img = Some id'" and "fault w = None"
  shows "(list_ex (\<lambda>d. Id' d = Some id') (docs w) \<and>
          \<not> index_conflict (indexes w) (remove_first (\<lambda>d. Id' d = Some id') (docs w)) img \<longrightarrow>
            (\<exists>w'. Update Validate (Some img) w =
                 Return ((True, None), Some (img\<lparr>Modified := Some (time_Now w)\<rparr>), w') \<and>
               clock w \<le> time_Now w \<and>
               find (\<lambda>d. Id' d = Some id') (docs w') =
                 Some (img\<lparr>Modified := Some (bson_datetime (time_Now w))\<rparr>) \<and>
               bson_datetime (time_Now w) \<le> time_Now w \<and>
               time_Now w < bson_datetime (time_Now w) + 1000000)) \<and>
         (list_ex (\<lambda>d. Id' d = Some id') (docs w) \<and>
          index_conflict (indexes w) (remove_first (\<lambda>d. Id' d = Some id') (docs w)) img \<longrightarrow>
            (\<exists>w'. Update Validate (Some img) w =
                 Return ((False, Some E11000), Some (img\<lparr>Modified := Some (time_Now w)\<rparr>), w') \<and>
               docs w' = docs w)) \<and>
         (\<not> list_ex (\<lambda>d. Id' d = Some id') (docs w) \<longrightarrow>
            (\<exists>w'. Update Validate (Some img) w =
                 Return ((False, None), Some (img\<lparr>Modified := Some (time_Now w)\<rparr>), w') \<and>
               docs w' = docs w))"
proof (intro conjI impI)
  let ?img = "img\<lparr>Modified := Some (time_Now w)\<rparr>"
  let ?doc = "img\<lparr>Modified := Some (bson_datetime (time_Now w))\<rparr>"
  assume a: "list_ex (\<lambda>d. Id' d = Some id') (docs w) \<and>
          \<not> index_conflict (indexes w) (remove_first (\<lambda>d. Id' d = Some id') (docs w)) img"
  with assms have "Update Validate (Some img) w =
      Return ((True, None), Some ?img,
        w\<lparr>requests := requests w @ [ReqUpdateId id' ?img],
          docs := replace_first (\<lambda>d. Id' d = Some id') ?doc (docs w)\<rparr>)"
    by (simp add: Update_def SetModified_def db_defs bson_document_def)
  moreover have "find (\<lambda>d. Id' d = Some id')
      (replace_first (\<lambda>d. Id' d = Some id') ?doc (docs w)) = Some ?doc"
    using assms(2) a by (simp add: find_replace_first)
  moreover have "clock w \<le> time_Now w"
    by (simp add: time_Now_def)
  ultimately show "\<exists>w'. Update Validate (Some img) w = Return ((True, None), Some ?img, w') \<and>
               clock w \<le> time_Now w \<and>
               find (\<lambda>d. Id' d = Some id') (docs w') = Some ?doc \<and>
               bson_datetime (time_Now w) \<le> time_Now w \<and>
               time_Now w < bson_datetime (time_Now w) + 1000000"
    using bson_datetime_le [of "time_Now w"] bson_datetime_less [of "time_Now w"]
    by auto
next
  assume "list_ex (\<lambda>d. Id' d = Some id') (docs w) \<and>
          index_conflict (indexes w) (remove_first (\<lambda>d. Id' d = Some id') (docs w)) img"
  with assms show "\<exists>w'. Update Validate (Some img) w =
                 Return ((False, Some E11000), Some (img\<lparr>Modified := Some (time_Now w)\<rparr>), w') \<and>
               docs w' = docs w"
    by (simp add: Update_def SetModified_def db_defs E11000_def)
next
  assume "\<not> list_ex (\<lambda>d. Id' d = Some id') (docs w)"
  with assms show "\<exists>w'. Update Validate (Some img) w =
                 Return ((False, None), Some (img\<lparr>Modified := Some (time_Now w)\<rparr>), w') \<and>
               docs w' = docs w"
    by (simp add: Update_def SetModified_def db_defs)
qed

theorem Update_semantics_witness:
  "(\<exists>w'. Update Validate_natural_key (Some image1) world1 =
       Return ((True, None), Some (image1\<lparr>Modified := Some (time_Now world1)\<rparr>), w') \<and>
     clock world1 \<le> time_Now world1 \<and>
     find (\<lambda>d. Id' d = Some ''a1'') (docs w') =
       Some (image1\<lparr>Modified := Some (bson_datetime (time_Now world1))\<rparr>) \<and>
     bson_datetime (time_Now world1) \<le> time_Now world1 \<and>
     time_Now world1 < bson_datetime (time_Now world1) + 1000000) \<and>
   (\<exists>w'. Update Validate_natural_key (Some image_clash) world2 =
       Return ((False, Some E11000), Some (image_clash\<lparr>Modified := Some (time_Now world2)\<rparr>), w') \<and>
     docs w' = docs world2) \<and>
   (\<exists>w'. Update Validate_natural_key (Some image1) world0 =
       Return ((False, None), Some (image1\<lparr>Modified := Some (time_Now world0)\<rparr>), w') \<and>
     docs w' = docs world0)"
proof -
  have v: "Validate_natural_key (Some image1) = Return None"
    by (simp add: example_defs IsNull_def)
  have i: "Id' image1 = Some ''a1''"
    by (simp add: image1_def)
  have vc: "Validate_natural_key (Some image_clash) = Return None"
    by (simp add: Validate_natural_key_def image_clash_def image2_def IsNull_def)
  have ic: "Id' image_clash = Some ''a2''"
    by (simp add: image_clash_def image2_def)
  have f0: "fault world0 = None" and f1: "fault world1 = None" and f2: "fault world2 = None"
    by (simp_all add: world0_def world1_def world2_def)
  have e1: "list_ex (\<lambda>d. Id' d = Some ''a1'') (docs world1)"
    by (simp add: world1_def world0_def image1_def)
  have c1: "\<not> index_conflict (indexes world1)
      (remove_first (\<lambda>d. Id' d = Some ''a1'') (docs world1)) image1"
    by (simp add: world1_def world0_def image1_def index_conflict_def)
  have e2: "list_ex (\<lambda>d. Id' d = Some ''a2'') (docs world2)"
    by (simp add: world2_def world1_def world0_def image1_def image2_def)
  have c2: "index_conflict (indexes world2)
      (remove_first (\<lambda>d. Id' d = Some ''a2'') (docs world2)) image_clash"
    by (simp add: world2_def world1_def world0_def image1_def image2_def image_clash_def
        doc_defs key_defs uniqueNameVersionIndex_def)
  have e0: "\<not> list_ex (\<lambda>d. Id' d = Some ''a1'') (docs world0)"
    by (simp add: world0_def)
  show ?thesis
    using Update_semantics [of Validate_natural_key image1 "''a1''" world1, OF v i f1]
      Update_semantics [of Validate_natural_key image_clash "''a2''" world2, OF vc ic f2]
      Update_semantics [of Validate_natural_key image1 "''a1''" world0, OF v i f0]
      e1 c1 e2 c2 e0
    by blast
qed

subsection \<open>The validation gate\<close>

text \<open>
  C5. \<^verbatim>\<open>Insert\<close> of nil returns InvalidImage, and of an image that fails
  \<^verbatim>\<open>Validate\<close> the validation error. In both cases the world is as it was before the
  call (nothing was written and no request was sent), and what \<^verbatim>\<open>FindAll\<close> lists then
  is among the documents stored before the call.
\<close>

theorem Insert_rejects_without_write:
  "Insert Validate None w = Return (Some ErrStorageInvalidImage, w) \<and>
   (Validate (Some img) = Return (Some m) \<longrightarrow>
      Insert Validate (Some img) w = Return (Some (ErrValidation m), w)) \<and>
   (\<forall>image_ptr e w'.
      (image_ptr = None \<or> (\<exists>m. Validate image_ptr = Return (Some m))) \<and>
      Insert Validate image_ptr w = Return (e, w') \<longrightarrow>
        e \<noteq> None \<and> w' = w \<and> set (fst (fst (FindAll w'))) \<subseteq> set (docs w))"
  using FindAll_subset [of w]
  by (auto simp: Insert_def split: option.splits)

theorem Insert_rejects_without_write_witness:
  "Insert Validate_natural_key (Some image_bad) world1 =
     Return (Some (ErrValidation ''natural key is empty''), world1) \<and>
   image_bad \<notin> set (fst (fst (FindAll world1)))"
proof -
  have v: "Validate_natural_key (Some image_bad) = Return (Some ''natural key is empty'')"
    by (simp add: Validate_natural_key_def image_bad_def IsNull_def)
  have d: "image_bad \<notin> set (docs world1)"
    by (simp add: world1_def world0_def image1_def image_bad_def)
  from v Insert_rejects_without_write [of Validate_natural_key world1 image_bad "''natural key is empty''"]
  have r: "Insert Validate_natural_key (Some image_bad) world1 =
      Return (Some (ErrValidation ''natural key is empty''), world1)"
    and "\<forall>image_ptr e w'.
      (image_ptr = None \<or> (\<exists>m. Validate_natural_key image_ptr = Return (Some m))) \<and>
      Insert Validate_natural_key image_ptr world1 = Return (e, w') \<longrightarrow>
        e \<noteq> None \<and> w' = world1 \<and> set (fst (fst (FindAll w'))) \<subseteq> set (docs world1)"
    by blast+
  with v have "set (fst (fst (FindAll world1))) \<subseteq> set (docs world1)"
    by blast
  with d r show ?thesis by blast
qed

text \<open>
  C6. \<^verbatim>\<open>Insert\<close> and \<^verbatim>\<open>Update\<close> validate before they reach the database: a call that
  returns with the world changed in any way (a session copied, a request sent, a
  document written) had its image pass \<^verbatim>\<open>Validate\<close>; and when \<^verbatim>\<open>Validate\<close> returns an
  error, the call returns that error and the world as it was.
\<close>

theorem validation_before_database:
  "(\<forall>r w'. Insert Validate image_ptr w = Return (r, w') \<and> w' \<noteq> w \<longrightarrow>
      Validate image_ptr = Return None) \<and>
   (\<forall>r image' w'. Update Validate image_ptr w = Return (r, image', w') \<and> w' \<noteq> w \<longrightarrow>
      Validate image_ptr = Return None) \<and>
   (\<forall>m. Validate image_ptr = Return (Some m) \<and> image_ptr \<noteq> None \<longrightarrow>
      Insert Validate image_ptr w = Return (Some (ErrValidation m), w)) \<and>
   (\<forall>m. Validate image_ptr = Return (Some m) \<longrightarrow>
      Update Validate image_ptr w = Return ((False, Some (ErrValidation m)), image_ptr, w))"
  by (auto simp: Insert_def Update_def split: option.splits outcome.splits)

theorem validation_before_database_witness:
  "Validate_natural_key (Some image1) = Return None \<and>
   Insert Validate_natural_key (Some image_bad) world1 =
     Return (Some (ErrValidation ''natural key is empty''), world1) \<and>
   Update Validate_natural_key (Some image_bad) world1 =
     Return ((False, Some (ErrValidation ''natural key is empty'')), Some image_bad, world1)"
proof -
  have vb: "Validate_natural_key (Some image_bad) = Return (Some ''natural key is empty'')"
    by (simp add: Validate_natural_key_def image_bad_def IsNull_def)
  have ins: "Insert Validate_natural_key (Some image1) world0 =
      Return (None, world0\<lparr>docs := [image1], requests := [ReqInsert image1]\<rparr>)"
    by (simp add: Insert_def Validate_natural_key_def IsNull_def image1_def world0_def db_defs
        index_conflict_def bson_document_def)
  have ne: "world0\<lparr>docs := [image1], requests := [ReqInsert image1]\<rparr> \<noteq> world0"
    by (simp add: world0_def)
  from validation_before_database [of Validate_natural_key "Some image1" world0] ins ne
  have "Validate_natural_key (Some image1) = Return None"
    by blast
  moreover from validation_before_database [of Validate_natural_key "Some image_bad" world1] vb
  have "Insert Validate_natural_key (Some image_bad) world1 =
     Return (Some (ErrValidation ''natural key is empty''), world1)"
    and "Update Validate_natural_key (Some image_bad) world1 =
     Return ((False, Some (ErrValidation ''natural key is empty'')), Some image_bad, world1)"
    by blast+
  ultimately show ?thesis by blast
qed

subsection \<open>Errors of the database\<close>

text \<open>
  C7. Whatever error the request of an operation to the database returns, the operation
  returns that same error, except that in \<^verbatim>\<open>Exists\<close>, \<^verbatim>\<open>Update\<close>,
  \<^verbatim>\<open>FindImageByApplicationAndModel\<close>, \<^verbatim>\<open>FindByID\<close>, \<^verbatim>\<open>Delete\<close> and \<^verbatim>\<open>FindAll\<close> an
  error whose message is the message of \<^verbatim>\<open>mgo.ErrNotFound\<close> becomes the empty result
  with no error. \<^verbatim>\<open>IndexStorage\<close> and \<^verbatim>\<open>Insert\<close> translate nothing.
\<close>

theorem database_errors_propagate_except_not_found:
  "(\<forall>e s. EnsureIndex uniqueNameVersionIndex (session_Copy w) = (Some e, s) \<longrightarrow>
      IndexStorage w = (Some e, session_Close s)) \<and>
   (\<forall>e s. IsNull id' \<and> FindId_One id' (session_Copy w) = (Inl e, s) \<longrightarrow>
      Exists id' w =
        (if Error e = Error ErrNotFound then (False, None) else (False, Some e), session_Close s)) \<and>
   (\<forall>e s. Validate (Some img) = Return None \<and> Id' img = Some uid \<and>
      UpdateId uid (img\<lparr>Modified := Some (time_Now w)\<rparr>) (session_Copy w) = (Some e, s) \<longrightarrow>
      Update Validate (Some img) w =
        Return (if Error e = Error ErrNotFound then (False, None) else (False, Some e),
                Some (img\<lparr>Modified := Some (time_Now w)\<rparr>), session_Close s)) \<and>
   (\<forall>e s. IsNull version \<and> IsNull mdl \<and>
      Find_One [(StorageKeySoftwareImageModel, mdl), (StorageKeySoftwareImageName, version)]
        (session_Copy w) = (Inl e, s) \<longrightarrow>
      FindImageByApplicationAndModel version mdl w =
        (if Error e = Error ErrNotFound then (None, None) else (None, Some e), session_Close s)) \<and>
   (\<forall>e s. Validate (Some img) = Return None \<and> Insert_doc img (session_Copy w) = (Some e, s) \<longrightarrow>
      Insert Validate (Some img) w = Return (Some e, session_Close s)) \<and>
   (\<forall>e s. IsNull id' \<and> FindId_One id' (session_Copy w) = (Inl e, s) \<longrightarrow>
      FindByID id' w =
        (if Error e = Error ErrNotFound then (None, None) else (None, Some e), session_Close s)) \<and>
   (\<forall>e s. IsNull id' \<and> RemoveId id' (session_Copy w) = (Some e, s) \<longrightarrow>
      Delete id' w = (if Error e = Error ErrNotFound then None else Some e, session_Close s)) \<and>
   (\<forall>e s. Find_All [] (session_Copy w) = (Inl e, s) \<longrightarrow>
      FindAll w =
        (if Error e = Error ErrNotFound then ([], None) else ([], Some e), session_Close s))"
proof (intro conjI impI allI)
  fix e s assume "EnsureIndex uniqueNameVersionIndex (session_Copy w) = (Some e, s)"
  then show "IndexStorage w = (Some e, session_Close s)"
    by (simp add: IndexStorage_def)
next
  fix e s assume "IsNull id' \<and> FindId_One id' (session_Copy w) = (Inl e, s)"
  then show "Exists id' w =
    (if Error e = Error ErrNotFound then (False, None) else (False, Some e), session_Close s)"
    by (simp add: Exists_def)
next
  fix e s assume "Validate (Some img) = Return None \<and> Id' img = Some uid \<and>
    UpdateId uid (img\<lparr>Modified := Some (time_Now w)\<rparr>) (session_Copy w) = (Some e, s)"
  then show "Update Validate (Some img) w =
        Return (if Error e = Error ErrNotFound then (False, None) else (False, Some e),
                Some (img\<lparr>Modified := Some (time_Now w)\<rparr>), session_Close s)"
    by (simp add: Update_def SetModified_def time_Now_def session_Copy_def)
next
  fix e s assume "IsNull version \<and> IsNull mdl \<and>
    Find_One [(StorageKeySoftwareImageModel, mdl), (StorageKeySoftwareImageName, version)]
      (session_Copy w) = (Inl e, s)"
  then show "FindImageByApplicationAndModel version mdl w =
        (if Error e = Error ErrNotFound then (None, None) else (None, Some e), session_Close s)"
    by (simp add: FindImageByApplicationAndModel_def)
next
  fix e s assume "Validate (Some img) = Return None \<and> Insert_doc img (session_Copy w) = (Some e, s)"
  then show "Insert Validate (Some img) w = Return (Some e, session_Close s)"
    by (simp add: Insert_def)
next
  fix e s assume "IsNull id' \<and> FindId_One id' (session_Copy w) = (Inl e, s)"
  then show "FindByID id' w =
        (if Error e = Error ErrNotFound then (None, None) else (None, Some e), session_Close s)"
    by (simp add: FindByID_def)
next
  fix e s assume "IsNull id' \<and> RemoveId id' (session_Copy w) = (Some e, s)"
  then show "Delete id' w = (if Error e = Error ErrNotFound then None else Some e, session_Close s)"
    by (simp add: Delete_def)
next
  fix e s assume "Find_All [] (session_Copy w) = (Inl e, s)"
  then show "FindAll w =
        (if Error e = Error ErrNotFound then ([], None) else ([], Some e), session_Close s)"
    by (simp add: FindAll_def)
qed

theorem database_errors_propagate_except_not_found_witness:
  "fst (IndexStorage world_down) = Some (ErrDatabase ''no reachable servers'') \<and>
   fst (Exists [] world_down) = (False, Some (ErrDatabase ''no reachable servers'')) \<and>
   (\<exists>i s. Update Validate_natural_key (Some image1) world_down =
      Return ((False, Some (ErrDatabase ''no reachable servers'')), i, s)) \<and>
   fst (FindImageByApplicationAndModel [] [] world_down) =
     (None, Some (ErrDatabase ''no reachable servers'')) \<and>
   (\<exists>s. Insert Validate_natural_key (Some image1) world_down =
      Return (Some (ErrDatabase ''no reachable servers''), s)) \<and>
   fst (FindByID [] world_down) = (None, Some (ErrDatabase ''no reachable servers'')) \<and>
   fst (Delete [] world_down) = Some (ErrDatabase ''no reachable servers'') \<and>
   fst (FindAll world_down) = ([], Some (ErrDatabase ''no reachable servers'')) \<and>
   fst (IndexStorage world_odd) = Some (ErrDatabase ''not found'') \<and>
   fst (Exists [] world_odd) = (False, None) \<and>
   (\<exists>i s. Update Validate_natural_key (Some image1) world_odd = Return ((False, None), i, s)) \<and>
   fst (FindImageByApplicationAndModel [] [] world_odd) = (None, None) \<and>
   (\<exists>s. Insert Validate_natural_key (Some image1) world_odd =
      Return (Some (ErrDatabase ''not found''), s)) \<and>
   fst (FindByID [] world_odd) = (None, None) \<and>
   fst (Delete [] world_odd) = None \<and>
   fst (FindAll world_odd) = ([], None)"
proof -
  have v: "Validate_natural_key (Some image1) = Return None"
    by (simp add: example_defs IsNull_def)
  have i: "Id' image1 = Some ''a1''"
    by (simp add: image1_def)
  have n: "IsNull []"
    by (simp add: IsNull_def)
  have fd: "fault world_down = Some ''no reachable servers''"
    by (simp add: world_down_def)
  have fo: "fault world_odd = Some ''not found''"
    by (simp add: world_odd_def)
  have cd: "Key uniqueNameVersionIndex \<notin> set (index_cache world_down)"
    and co: "Key uniqueNameVersionIndex \<notin> set (index_cache world_odd)"
    by (simp_all add: world_down_def world_odd_def world1_def world0_def)
  note down = database_errors_propagate_except_not_found
    [of world_down "[]" Validate_natural_key image1 "''a1''" "[]" "[]"]
  note odd = database_errors_propagate_except_not_found
    [of world_odd "[]" Validate_natural_key image1 "''a1''" "[]" "[]"]
  show ?thesis
    using down odd v i n
    by (simp add: fault_db [OF fd] fault_db [OF fo] fault_EnsureIndex [OF fd cd]
        fault_EnsureIndex [OF fo co] FindId_One_def)
qed

subsection \<open>The index\<close>



subsection \<open>The caller's image in Update\<close>

text \<open>
  C9. \<^verbatim>\<open>Update\<close> sets the modification timestamp of the caller's image to the time it
  reads, before it sends the update: when the image passes validation and has an id,
  the call returns the image with that timestamp and the request it sent carries it,
  also when the record is absent and (false, nil) comes back and when the database
  fails and its error comes back. Whenever \<^verbatim>\<open>Update\<close> returns, the caller's image is
  as it was exactly when validation failed, and carries the new timestamp otherwise.
\<close>

theorem Update_sets_timestamp_of_callers_image:
  "(Validate (Some img) = Return None \<and> Id' img = Some id' \<longrightarrow>
      (\<exists>r w'. Update Validate (Some img) w =
           Return (r, Some (img\<lparr>Modified := Some (time_Now w)\<rparr>), w') \<and>
         requests w' = requests w @ [ReqUpdateId id' (img\<lparr>Modified := Some (time_Now w)\<rparr>)] \<and>
         (fault w = None \<and> \<not> list_ex (\<lambda>d. Id' d = Some id') (docs w) \<longrightarrow> r = (False, None)) \<and>
         (\<forall>m. fault w = Some m \<and> m \<noteq> Error ErrNotFound \<longrightarrow> r = (False, Some (ErrDatabase m))))) \<and>
   (\<forall>r image' w'. Update Validate image_ptr w = Return (r, image', w') \<longrightarrow>
      (\<exists>m. Validate image_ptr = Return (Some m) \<and> image' = image_ptr) \<or>
      (\<exists>img. Validate image_ptr = Return None \<and> image_ptr = Some img \<and>
         image' = Some (img\<lparr>Modified := Some (time_Now w)\<rparr>)))"
proof (intro conjI impI allI)
  assume a: "Validate (Some img) = Return None \<and> Id' img = Some id'"
  let ?img = "img\<lparr>Modified := Some (time_Now w)\<rparr>"
  obtain err s where u: "UpdateId id' ?img (session_Copy w) = (err, s)"
    by (cases "UpdateId id' ?img (session_Copy w)")
  have rq: "requests s = requests w @ [ReqUpdateId id' ?img]"
    using UpdateId_requests [of id' ?img "session_Copy w"] u by (simp add: session_Copy_def)
  have absent: "fault w = None \<and> \<not> list_ex (\<lambda>d. Id' d = Some id') (docs w) \<Longrightarrow> err = Some ErrNotFound"
    using u by (auto simp: UpdateId_def session_Copy_def Let_def)
  have down: "\<And>m. fault w = Some m \<Longrightarrow> err = Some (ErrDatabase m)"
    using u by (auto simp: UpdateId_def session_Copy_def Let_def)
  let ?r = "case err of None \<Rightarrow> (True, None)
      | Some e \<Rightarrow> if Error e = Error ErrNotFound then (False, None) else (False, Some e)"
  have "Update Validate (Some img) w = Return (?r, Some ?img, session_Close s)"
    using a u by (simp add: Update_def SetModified_def time_Now_def session_Copy_def
        split: option.splits)
  moreover have "requests (session_Close s) = requests w @ [ReqUpdateId id' ?img]"
    using rq by (simp add: session_Close_def)
  moreover have "fault w = None \<and> \<not> list_ex (\<lambda>d. Id' d = Some id') (docs w) \<longrightarrow> ?r = (False, None)"
    using absent by auto
  moreover have "\<forall>m. fault w = Some m \<and> m \<noteq> Error ErrNotFound \<longrightarrow> ?r = (False, Some (ErrDatabase m))"
    using down by auto
  ultimately show "\<exists>r w'. Update Validate (Some img) w =
           Return (r, Some (img\<lparr>Modified := Some (time_Now w)\<rparr>), w') \<and>
         requests w' = requests w @ [ReqUpdateId id' (img\<lparr>Modified := Some (time_Now w)\<rparr>)] \<and>
         (fault w = None \<and> \<not> list_ex (\<lambda>d. Id' d = Some id') (docs w) \<longrightarrow> r = (False, None)) \<and>
         (\<forall>m. fault w = Some m \<and> m \<noteq> Error ErrNotFound \<longrightarrow> r = (False, Some (ErrDatabase m)))"
    by blast
next
  fix r image' w'
  assume "Update Validate image_ptr w = Return (r, image', w')"
  then show "(\<exists>m. Validate image_ptr = Return (Some m) \<and> image' = image_ptr) \<or>
      (\<exists>img. Validate image_ptr = Return None \<and> image_ptr = Some img \<and>
         image' = Some (img\<lparr>Modified := Some (time_Now w)\<rparr>))"
    by (auto simp: Update_def SetModified_def time_Now_def session_Copy_def Let_def
        split: option.splits outcome.splits prod.splits if_splits)
qed

theorem Update_sets_timestamp_of_callers_image_witness:
  "(\<exists>w'. Update Validate_natural_key (Some image1) world0 =
      Return ((False, None), Some (image1\<lparr>Modified := Some (time_Now world0)\<rparr>), w') \<and>
      requests w' =
        requests world0 @ [ReqUpdateId ''a1'' (image1\<lparr>Modified := Some (time_Now world0)\<rparr>)]) \<and>
   (\<exists>w'. Update Validate_natural_key (Some image1) world_down =
      Return ((False, Some (ErrDatabase ''no reachable servers'')),
        Some (image1\<lparr>Modified := Some (time_Now world_down)\<rparr>), w')) \<and>
   (\<exists>r image' w'. Update Validate_natural_key (Some image_bad) world1 = Return (r, image', w') \<and>
      image' = Some image_bad)"
proof -
  have v: "Validate_natural_key (Some image1) = Return None \<and> Id' image1 = Some ''a1''"
    by (simp add: example_defs IsNull_def)
  have vb: "Validate_natural_key (Some image_bad) = Return (Some ''natural key is empty'')"
    by (simp add: Validate_natural_key_def image_bad_def IsNull_def)
  have a0: "fault world0 = None \<and> \<not> list_ex (\<lambda>d. Id' d = Some ''a1'') (docs world0)"
    by (simp add: world0_def)
  have fd: "fault world_down = Some ''no reachable servers'' \<and>
      ''no reachable servers'' \<noteq> Error ErrNotFound"
    by (simp add: world_down_def)
  have 1: "\<exists>w'. Update Validate_natural_key (Some image1) world0 =
      Return ((False, None), Some (image1\<lparr>Modified := Some (time_Now world0)\<rparr>), w') \<and>
      requests w' =
        requests world0 @ [ReqUpdateId ''a1'' (image1\<lparr>Modified := Some (time_Now world0)\<rparr>)]"
    using Update_sets_timestamp_of_callers_image
      [of Validate_natural_key image1 "''a1''" world0] v a0
    by blast
  have 2: "\<exists>w'. Update Validate_natural_key (Some image1) world_down =
      Return ((False, Some (ErrDatabase ''no reachable servers'')),
        Some (image1\<lparr>Modified := Some (time_Now world_down)\<rparr>), w')"
    using Update_sets_timestamp_of_callers_image
      [of Validate_natural_key image1 "''a1''" world_down] v fd
    by blast
  obtain r image' w' where
    u: "Update Validate_natural_key (Some image_bad) world1 = Return (r, image', w')"
    using vb by (simp add: Update_def)
  have 3: "image' = Some image_bad"
    using Update_sets_timestamp_of_callers_image
      [of Validate_natural_key _ _ world1 "Some image_bad"] vb u
    by (metis outcome.inject option.distinct(1))
  from 1 2 3 u show ?thesis by blast
qed

text \<open>
  C10. \<^verbatim>\<open>Update\<close> has no guard against nil: it never returns InvalidImage, where
  \<^verbatim>\<open>Insert\<close> of nil does. With an image and an id that are not nil (and a
  \<^verbatim>\<open>Validate\<close> that does not panic) it does not panic; once validation lets a nil image
  or an image with a nil id through, it panics.
\<close>

theorem Update_no_nil_guard:
  "(\<forall>r image' w'. Update Validate image_ptr w = Return (r, image', w') \<longrightarrow>
      snd r \<noteq> Some ErrStorageInvalidImage) \<and>
   Insert Validate None w = Return (Some ErrStorageInvalidImage, w) \<and>
   (image_ptr = Some img \<and> Id' img \<noteq> None \<and> Validate image_ptr \<noteq> Panic \<longrightarrow>
      Update Validate image_ptr w \<noteq> Panic) \<and>
   (Validate image_ptr = Return None \<and>
    (image_ptr = None \<or> (\<exists>img. image_ptr = Some img \<and> Id' img = None)) \<longrightarrow>
      Update Validate image_ptr w = Panic)"
  by (auto simp: Update_def Insert_def SetModified_def UpdateId_def E11000_def Let_def
      split: option.splits outcome.splits prod.splits if_splits)

theorem Update_no_nil_guard_witness:
  "Update Validate_natural_key (Some image1) world1 \<noteq> Panic \<and>
   Update Validate_natural_key (Some image_no_id) world1 = Panic \<and>
   Update (\<lambda>_. Return None) None world1 = Panic \<and>
   Insert (\<lambda>_. Return None) None world1 = Return (Some ErrStorageInvalidImage, world1)"
proof -
  have v: "Validate_natural_key (Some image1) \<noteq> Panic \<and> Id' image1 \<noteq> None"
    by (simp add: example_defs IsNull_def)
  have vn: "Validate_natural_key (Some image_no_id) = Return None \<and> Id' image_no_id = None"
    by (simp add: Validate_natural_key_def image_no_id_def IsNull_def)
  show ?thesis
    using Update_no_nil_guard [of Validate_natural_key "Some image1" world1 image1] v
      Update_no_nil_guard [of Validate_natural_key "Some image_no_id" world1] vn
      Update_no_nil_guard [of "\<lambda>_. Return None" None world1]
    by simp
qed

end
